theory Spec2Isabelle
  imports Main "HOL-Library.Word"
begin

section \<open>The command-table loader of zhinst-toolkit (drivers/base/ct.py)\<close>

text \<open>
  The class \<open>CommandTable\<close> takes a command table as a JSON string, a list of entries or
  a complete document, turns it into a document (\<open>_to_dict\<close>), validates the document
  against a JSON schema that it downloads (\<open>_validate\<close>) and writes the serialised
  document to a node of the instrument (\<open>load\<close>). The methods are modelled as functions
  that take the loader object and the state of the world and return the outcome, the
  loader object and the new state. A leading underscore of a Python name is dropped.
\<close>

subsection \<open>Python values and objects\<close>

text \<open>
  A Python value. A float is carried as its IEEE-754 bit pattern (the loader computes
  with none), a dict as its items in insertion order, any object of another class as
  \<open>PObject\<close> with the name of its class.
\<close>

datatype pyval =
    PNone
  | PBool bool
  | PInt int
  | PFloat "64 word"
  | PStr string
  | PList "pyval list"
  | PTuple "pyval list"
  | PDict "(pyval \<times> pyval) list"
  | PObject string

fun isinstance_str :: "pyval \<Rightarrow> bool" where
  "isinstance_str (PStr _) = True"
| "isinstance_str _ = False"

fun isinstance_list :: "pyval \<Rightarrow> bool" where
  "isinstance_list (PList _) = True"
| "isinstance_list _ = False"

fun isinstance_dict :: "pyval \<Rightarrow> bool" where
  "isinstance_dict (PDict _) = True"
| "isinstance_dict _ = False"

text \<open>\<open>d[key]\<close> on a dict, \<open>None\<close> where Python raises \<open>KeyError\<close> or \<open>TypeError\<close>.\<close>

fun getitem :: "pyval \<Rightarrow> pyval \<Rightarrow> pyval option" where
  "getitem (PDict items) key = map_of items key"
| "getitem _ key = None"

text \<open>The exceptions that the loader and the libraries it calls raise.\<close>

datatype exn =
    JSONDecodeError  \<comment> \<open>\<open>json.JSONDecodeError\<close>: the text is not JSON\<close>
  | ToolkitError string  \<comment> \<open>the toolkit's own error, with its message\<close>
  | UnboundLocalError string  \<comment> \<open>a local variable read before it was assigned\<close>
  | URLError  \<comment> \<open>\<open>urllib.error.URLError\<close>: the URL cannot be reached\<close>
  | HTTPError int  \<comment> \<open>\<open>urllib.error.HTTPError\<close>: a response that is not a success\<close>
  | ValidationError "pyval list" pyval
      \<comment> \<open>\<open>jsonschema.ValidationError\<close>: the path of the violated constraint in the schema
          and the offending instance\<close>
  | SchemaError  \<comment> \<open>\<open>jsonschema.SchemaError\<close>: the schema itself is not a valid schema\<close>
  | TypeError  \<comment> \<open>raised by \<open>json.dumps\<close> on an object it cannot serialise\<close>
  | OtherException string

text \<open>
  The taxonomy of the specification (section 7) over the exceptions of the code:
  a format error is an unsupported input type or a text that is not JSON, a validation
  error is a document that does not conform, a network error is a schema URL that is
  unreachable or answers without success.
\<close>

datatype error_class = Format_Error | Validation_Error | Network_Error

fun taxonomy :: "exn \<Rightarrow> error_class option" where
  "taxonomy JSONDecodeError = Some Format_Error"
| "taxonomy (ToolkitError _) = Some Format_Error"
| "taxonomy (ValidationError _ _) = Some Validation_Error"
| "taxonomy URLError = Some Network_Error"
| "taxonomy (HTTPError _) = Some Network_Error"
| "taxonomy _ = None"

subsection \<open>The world around the loader\<close>

text \<open>
  Objects live in a store: \<open>heap\<close> gives the value of the object at an address and
  \<open>next_ref\<close> is the first address not yet in use. The store holds the objects that the
  methods receive and return (the command table and the document made from it); the
  values inside a list or a dict are kept in the value of the container, since no
  method of the loader assigns to any of them. \<open>opened\<close> lists the URLs that were
  requested, \<open>written\<close> the calls that the instruments received, each in order.
\<close>

type_synonym ref = nat

type_synonym device = nat

record state =
  heap :: "ref \<Rightarrow> pyval"
  next_ref :: ref
  opened :: "string list"
  written :: "(device \<times> string \<times> string) list"

definition new_object :: "pyval \<Rightarrow> state \<Rightarrow> ref \<times> state" where
  "new_object v s =
     (next_ref s, s\<lparr>heap := (heap s)(next_ref s := v), next_ref := Suc (next_ref s)\<rparr>)"

text \<open>
  The libraries are parameters of the model. \<open>json_loads\<close> and \<open>json_dumps\<close> are
  \<open>json.loads\<close> and \<open>json.dumps\<close>. \<open>urlopen n url\<close> is the outcome of
  \<open>urllib.request.urlopen(url)\<close> followed by \<open>f.read().decode()\<close> when \<open>n\<close> requests were
  made before: the decoded body, or the exception that one of the three calls raises;
  the answer of the network may change from one request to the next.
  \<open>jsonschema_validate cls instance schema\<close> is
  \<open>jsonschema.validate(instance, schema=schema, cls=cls)\<close>: \<open>None\<close> when it returns, the
  exception otherwise.
\<close>

datatype validator = Draft3Validator | Draft4Validator | Draft6Validator | Draft7Validator

record env =
  json_loads :: "string \<Rightarrow> exn + pyval"
  json_dumps :: "pyval \<Rightarrow> exn + string"
  urlopen :: "nat \<Rightarrow> string \<Rightarrow> exn + string"
  jsonschema_validate :: "validator \<Rightarrow> pyval \<Rightarrow> pyval \<Rightarrow> exn option"

datatype ExceptionTypes = ExceptionTypes_ToolkitError

text \<open>
  Modelled from the spec: \<open>LoggerModule.error\<close> of \<open>zhinst.toolkit.interface\<close>, which is
  not among the sources. The specification has the loader fail on an unsupported type
  with an error that carries the message, so the logger raises the exception whose
  type it is given, with the message it is given. The result is the exception raised,
  \<open>None\<close> standing for a return.
\<close>

definition logger_error :: "string \<Rightarrow> ExceptionTypes \<Rightarrow> exn option" where
  "logger_error msg ty = (case ty of ExceptionTypes_ToolkitError \<Rightarrow> Some (ToolkitError msg))"

text \<open>
  Modelled from the spec: \<open>_set_vector\<close> of the instrument class, which is not among the
  sources. The specification has the device interface accept a node path and a string
  payload and transmit them; the model records the call.
\<close>

definition set_vector :: "device \<Rightarrow> string \<Rightarrow> string \<Rightarrow> state \<Rightarrow> state" where
  "set_vector dev node payload s = s\<lparr>written := written s @ [(dev, node, payload)]\<rparr>"

subsection \<open>Formatting an integer in an f-string\<close>

function str_nat :: "nat \<Rightarrow> string" where
  "str_nat n =
     (if n < 10 then [''0123456789'' ! n]
      else str_nat (n div 10) @ [''0123456789'' ! (n mod 10)])"
  by pat_completeness auto
termination
  by (relation "measure id") auto

declare str_nat.simps [simp del]

definition str_int :: "int \<Rightarrow> string" where
  "str_int i = (if i < 0 then CHR ''-'' # str_nat (nat (- i)) else str_nat (nat i))"

text \<open>
  Reading a decimal numeral back, as \<open>int(text)\<close> does on such a text, and the canonical
  form of a numeral (digits only, no leading zero, no negative zero): the two say what
  text the f-string produces for an index.
\<close>

definition is_digit :: "char \<Rightarrow> bool" where
  "is_digit c = (c \<in> set ''0123456789'')"

definition digit_value :: "char \<Rightarrow> nat" where
  "digit_value c = of_char c - 48"

definition nat_of_str :: "string \<Rightarrow> nat" where
  "nat_of_str ds = foldl (\<lambda>a c. 10 * a + digit_value c) 0 ds"

definition int_of_str :: "string \<Rightarrow> int" where
  "int_of_str text =
     (if text \<noteq> [] \<and> hd text = CHR ''-'' then - int (nat_of_str (tl text))
      else int (nat_of_str text))"

definition canonical_nat :: "string \<Rightarrow> bool" where
  "canonical_nat ds =
     (ds \<noteq> [] \<and> list_all is_digit ds \<and> ((hd ds = CHR ''0'') = (ds = ''0'')))"

definition canonical_int :: "string \<Rightarrow> bool" where
  "canonical_int text =
     (if text \<noteq> [] \<and> hd text = CHR ''-''
      then canonical_nat (tl text) \<and> tl text \<noteq> ''0''
      else canonical_nat text)"

subsection \<open>The class CommandTable\<close>

text \<open>
  \<open>AWGCore\<close> is the generator that owns the loader; the constructor reads its fields
  \<open>_index\<close> and \<open>_parent\<close> (the instrument).
\<close>

record AWGCore =
  awg_index :: int
  awg_parent :: device

record CommandTable =
  ct_parent :: AWGCore
  ct_index :: int
  ct_device :: device
  ct_schema_url :: string

definition init :: "AWGCore \<Rightarrow> string \<Rightarrow> CommandTable" where
  "init parent url =
     \<lparr>ct_parent = parent, ct_index = awg_index parent, ct_device = awg_parent parent,
      ct_schema_url = url\<rparr>"

definition unsupported_type_message :: string where
  "unsupported_type_message =
     ''The command table should be specified as either a string, or a list '' @
     ''of entries without a header, or a valid json as a dictionary.''"

text \<open>
  \<open>_to_dict\<close>: a string is parsed, a list is wrapped into a new document, a dict is
  returned as it is. For any other type the logger is called; were it to return,
  \<open>return table_updated\<close> would read a variable that was never assigned.
\<close>

definition to_dict ::
  "env \<Rightarrow> CommandTable \<Rightarrow> ref \<Rightarrow> state \<Rightarrow> (exn + ref) \<times> CommandTable \<times> state" where
  "to_dict env self table s =
     (case heap s table of
        PStr text \<Rightarrow>
          (case json_loads env text of
             Inl e \<Rightarrow> (Inl e, self, s)
           | Inr v \<Rightarrow> (case new_object v s of (table_updated, s1) \<Rightarrow> (Inr table_updated, self, s1)))
      | PList entries \<Rightarrow>
          (case new_object
                  (PDict [(PStr ''$schema'', PStr (ct_schema_url self)),
                          (PStr ''header'',
                             PDict [(PStr ''version'', PStr ''0.2''), (PStr ''partial'', PBool False)]),
                          (PStr ''table'', PList entries)]) s of
             (table_updated, s1) \<Rightarrow> (Inr table_updated, self, s1))
      | PDict items \<Rightarrow> (Inr table, self, s)
      | _ \<Rightarrow>
          (case logger_error unsupported_type_message ExceptionTypes_ToolkitError of
             Some e \<Rightarrow> (Inl e, self, s)
           | None \<Rightarrow> (Inl (UnboundLocalError ''table_updated''), self, s)))"

text \<open>
  \<open>_validate\<close>: the document is made first; then the schema is requested, parsed and
  the document validated against it with the Draft-4 validator.
\<close>

definition validate ::
  "env \<Rightarrow> CommandTable \<Rightarrow> ref \<Rightarrow> state \<Rightarrow> (exn + ref) \<times> CommandTable \<times> state" where
  "validate env self table s =
     (case to_dict env self table s of
        (Inl e, self1, s1) \<Rightarrow> (Inl e, self1, s1)
      | (Inr table_updated, self1, s1) \<Rightarrow>
          (let s2 = s1\<lparr>opened := opened s1 @ [ct_schema_url self1]\<rparr> in
           case urlopen env (length (opened s1)) (ct_schema_url self1) of
             Inl e \<Rightarrow> (Inl e, self1, s2)
           | Inr ct_schema_str \<Rightarrow>
               (case json_loads env ct_schema_str of
                  Inl e \<Rightarrow> (Inl e, self1, s2)
                | Inr ct_schema_dict \<Rightarrow>
                    (case jsonschema_validate env Draft4Validator
                            (heap s2 table_updated) ct_schema_dict of
                       Some e \<Rightarrow> (Inl e, self1, s2)
                     | None \<Rightarrow> (Inr table_updated, self1, s2)))))"

text \<open>
  \<open>load\<close>: the node is formatted, the validated document serialised, and the pair handed
  to the instrument. \<open>Inr ()\<close> is the return of \<open>None\<close>.
\<close>

definition load ::
  "env \<Rightarrow> CommandTable \<Rightarrow> ref \<Rightarrow> state \<Rightarrow> (exn + unit) \<times> CommandTable \<times> state" where
  "load env self table s =
     (case validate env self table s of
        (Inl e, self1, s1) \<Rightarrow> (Inl e, self1, s1)
      | (Inr table_updated, self1, s1) \<Rightarrow>
          (let node = ''awgs/'' @ str_int (ct_index self1) @ ''/commandtable/data'' in
           case json_dumps env (heap s1 table_updated) of
             Inl e \<Rightarrow> (Inl e, self1, s1)
           | Inr payload \<Rightarrow> (Inr (), self1, set_vector (ct_device self1) node payload s1)))"

subsection \<open>An example environment\<close>

text \<open>
  A network with three addresses and the libraries at the texts and values of the
  examples below. The schema address answers the first request with the schema \<open>{}\<close>,
  which accepts every document, and every later request with a schema that accepts
  objects only; a second address answers with a text that is not JSON, a third with
  the status 404; every other address is unreachable.
\<close>

definition schema_url :: string where
  "schema_url = ''https://example.org/ct_schema.json''"

definition broken_url :: string where
  "broken_url = ''https://example.org/broken.json''"

definition missing_url :: string where
  "missing_url = ''https://example.org/missing.json''"

definition unreachable_url :: string where
  "unreachable_url = ''https://unreachable.invalid/schema.json''"

definition object_schema_text :: string where
  \<open>object_schema_text = ''{"type": "object"}''\<close>

definition empty_table_document :: pyval where
  "empty_table_document =
     PDict [(PStr ''$schema'', PStr ''https://example.org/ct_schema.json''),
            (PStr ''header'',
               PDict [(PStr ''version'', PStr ''0.2''), (PStr ''partial'', PBool False)]),
            (PStr ''table'', PList [])]"

definition empty_table_text :: string where
  \<open>empty_table_text =
     ''{"$schema": "https://example.org/ct_schema.json", '' @
     ''"header": {"version": "0.2", "partial": false}, "table": []}''\<close>

definition example_json_loads :: "string \<Rightarrow> exn + pyval" where
  "example_json_loads text =
     (if text = ''{}'' then Inr (PDict [])
      else if text = ''[]'' then Inr (PList [])
      else if text = object_schema_text then Inr (PDict [(PStr ''type'', PStr ''object'')])
      else Inl JSONDecodeError)"

definition example_json_dumps :: "pyval \<Rightarrow> exn + string" where
  "example_json_dumps v =
     (if v = PDict [] then Inr ''{}''
      else if v = empty_table_document then Inr empty_table_text
      else Inl TypeError)"

definition example_urlopen :: "nat \<Rightarrow> string \<Rightarrow> exn + string" where
  "example_urlopen n url =
     (if url = schema_url then (if n = 0 then Inr ''{}'' else Inr object_schema_text)
      else if url = broken_url then Inr ''{''
      else if url = missing_url then Inl (HTTPError 404)
      else Inl URLError)"

definition example_validate :: "validator \<Rightarrow> pyval \<Rightarrow> pyval \<Rightarrow> exn option" where
  "example_validate cls instance schema =
     (if schema = PDict [] then None
      else if schema = PDict [(PStr ''type'', PStr ''object'')]
      then (if isinstance_dict instance then None
            else Some (ValidationError [PStr ''type''] instance))
      else Some SchemaError)"

definition example_env :: env where
  "example_env =
     \<lparr>json_loads = example_json_loads, json_dumps = example_json_dumps,
      urlopen = example_urlopen, jsonschema_validate = example_validate\<rparr>"

text \<open>The loader of generator 3 of instrument 7, and a state holding the given objects.\<close>

definition example_loader :: "string \<Rightarrow> CommandTable" where
  "example_loader url = init \<lparr>awg_index = 3, awg_parent = 7\<rparr> url"

definition example_state :: "pyval list \<Rightarrow> string list \<Rightarrow> state" where
  "example_state objects requests =
     \<lparr>heap = (\<lambda>r. if r < length objects then objects ! r else PNone),
      next_ref = length objects, opened = requests, written = []\<rparr>"

lemmas example_defs =
  schema_url_def broken_url_def missing_url_def unreachable_url_def object_schema_text_def
  empty_table_document_def empty_table_text_def example_json_loads_def
  example_json_dumps_def example_urlopen_def example_validate_def example_env_def
  example_loader_def example_state_def init_def

section \<open>Properties\<close>

subsection \<open>What each method leaves alone\<close>

lemma to_dict_frame:
  assumes "to_dict env self table s = (r, self', s')"
  shows "self' = self \<and> opened s' = opened s \<and> written s' = written s"
  using assms
  by (auto simp: to_dict_def new_object_def logger_error_def split: pyval.splits sum.splits)

lemma to_dict_error_state:
  assumes "to_dict env self table s = (Inl e, self', s')"
  shows "s' = s"
  using assms
  by (auto simp: to_dict_def new_object_def logger_error_def split: pyval.splits sum.splits)

lemma validate_frame:
  assumes "validate env self table s = (r, self', s')"
  shows "self' = self \<and> written s' = written s"
proof -
  obtain r0 self0 s0 where t: "to_dict env self table s = (r0, self0, s0)"
    by (cases "to_dict env self table s") auto
  from to_dict_frame [OF t] have "self0 = self" "written s0 = written s" by simp_all
  with assms t show ?thesis
    by (auto simp: validate_def Let_def split: sum.splits option.splits)
qed

text \<open>A call of \<open>load\<close> that raises has written nothing, whatever it raises.\<close>

lemma load_error_no_write:
  assumes "load env self table s = (Inl e, self', s')"
  shows "written s' = written s"
proof -
  obtain r0 self0 s0 where v: "validate env self table s = (r0, self0, s0)"
    by (cases "validate env self table s") auto
  from validate_frame [OF v] have "written s0 = written s" by simp
  with assms v show ?thesis
    by (auto simp: load_def Let_def split: sum.splits)
qed

text \<open>A call of \<open>load\<close> whose table does not normalise requests nothing and changes nothing.\<close>

lemma load_not_normalized:
  assumes "to_dict env self table s = (Inl e, self1, s1)"
  shows "load env self table s = (Inl e, self, s)"
  using assms to_dict_frame [OF assms] to_dict_error_state [OF assms]
  by (simp add: load_def validate_def)

text \<open>Once the document is made, \<open>_validate\<close> is one request, one parse, one validation.\<close>

lemma validate_normalized:
  assumes "to_dict env self table s = (Inr doc, self1, s1)"
  shows "validate env self table s =
           ((case urlopen env (length (opened s)) (ct_schema_url self) of
               Inl e \<Rightarrow> Inl e
             | Inr body \<Rightarrow>
                 (case json_loads env body of
                    Inl e \<Rightarrow> Inl e
                  | Inr schema \<Rightarrow>
                      (case jsonschema_validate env Draft4Validator (heap s1 doc) schema of
                         Some e \<Rightarrow> Inl e
                       | None \<Rightarrow> Inr doc))),
            self, s1\<lparr>opened := opened s @ [ct_schema_url self]\<rparr>)"
  using assms to_dict_frame [OF assms]
  by (auto simp: validate_def Let_def split: sum.splits option.splits)

text \<open>A table that does not normalise: the type is unsupported, or \<open>json.loads\<close> raised.\<close>

lemma to_dict_error_kind:
  assumes "to_dict env self table s = (Inl x, self1, s1)"
  shows "x = ToolkitError unsupported_type_message
       \<or> (\<exists>text. heap s table = PStr text \<and> json_loads env text = Inl x)"
  using assms
  by (auto simp: to_dict_def new_object_def logger_error_def split: pyval.splits sum.splits)

subsection \<open>The text of an integer\<close>

lemma digit_nth:
  assumes "d < 10"
  shows "is_digit (''0123456789'' ! d)"
    and "digit_value (''0123456789'' ! d) = d"
    and "(''0123456789'' ! d = CHR ''0'') = (d = 0)"
    and "''0123456789'' ! d \<noteq> CHR ''-''"
proof -
  from assms consider "d = 0" | "d = 1" | "d = 2" | "d = 3" | "d = 4" | "d = 5"
    | "d = 6" | "d = 7" | "d = 8" | "d = 9"
    by atomize_elim presburger
  then have "is_digit (''0123456789'' ! d) \<and> digit_value (''0123456789'' ! d) = d
      \<and> (''0123456789'' ! d = CHR ''0'') = (d = 0) \<and> ''0123456789'' ! d \<noteq> CHR ''-''"
    by cases (simp_all add: is_digit_def digit_value_def)
  then show "is_digit (''0123456789'' ! d)"
    and "digit_value (''0123456789'' ! d) = d"
    and "(''0123456789'' ! d = CHR ''0'') = (d = 0)"
    and "''0123456789'' ! d \<noteq> CHR ''-''"
    by simp_all
qed

lemma str_nat_nonempty: "str_nat n \<noteq> []"
  by (subst str_nat.simps) simp

lemma str_nat_digits: "list_all is_digit (str_nat n)"
proof (induction n rule: str_nat.induct)
  case (1 n)
  show ?case
  proof (cases "n < 10")
    case True
    then show ?thesis by (subst str_nat.simps) (simp add: digit_nth)
  next
    case False
    with "1" show ?thesis by (subst str_nat.simps) (simp add: digit_nth)
  qed
qed

lemma str_nat_value: "nat_of_str (str_nat n) = n"
proof (induction n rule: str_nat.induct)
  case (1 n)
  show ?case
  proof (cases "n < 10")
    case True
    then show ?thesis by (subst str_nat.simps) (simp add: nat_of_str_def digit_nth)
  next
    case False
    with "1" have "nat_of_str (str_nat (n div 10)) = n div 10" by simp
    with False show ?thesis
      by (subst str_nat.simps) (simp add: nat_of_str_def digit_nth)
  qed
qed

lemma str_nat_hd: "(hd (str_nat n) = CHR ''0'') = (n = 0)"
proof (induction n rule: str_nat.induct)
  case (1 n)
  show ?case
  proof (cases "n < 10")
    case True
    then show ?thesis by (subst str_nat.simps) (simp add: digit_nth)
  next
    case False
    with "1" have "(hd (str_nat (n div 10)) = CHR ''0'') = (n div 10 = 0)" by simp
    with False show ?thesis
      by (subst str_nat.simps) (simp add: str_nat_nonempty)
  qed
qed

lemma str_nat_zero: "(str_nat n = ''0'') = (n = 0)"
proof
  assume "str_nat n = ''0''"
  then have "nat_of_str (str_nat n) = nat_of_str ''0''" by simp
  then have "n = nat_of_str ''0''" by (simp only: str_nat_value)
  then show "n = 0" by (simp add: nat_of_str_def digit_value_def)
next
  assume "n = 0"
  then show "str_nat n = ''0''" by (simp add: str_nat.simps)
qed

lemma str_nat_canonical: "canonical_nat (str_nat n)"
  by (simp add: canonical_nat_def str_nat_nonempty str_nat_digits str_nat_hd str_nat_zero)

lemma str_nat_no_sign: "hd (str_nat n) \<noteq> CHR ''-''"
proof -
  have "is_digit (hd (str_nat n))"
    using str_nat_digits [of n] str_nat_nonempty [of n]
    by (cases "str_nat n") simp_all
  then show ?thesis by (auto simp: is_digit_def)
qed

lemma str_int_value: "int_of_str (str_int i) = i"
  by (simp add: int_of_str_def str_int_def str_nat_value str_nat_no_sign str_nat_nonempty)

lemma str_int_canonical: "canonical_int (str_int i)"
  by (simp add: canonical_int_def str_int_def str_nat_canonical str_nat_no_sign
      str_nat_nonempty str_nat_zero)

subsection \<open>Normalisation\<close>

text \<open>
  C3. For every list \<open>S\<close> of entries, normalisation returns a new document
  \<open>{"$schema": u, "header": {"version": "0.2", "partial": false}, "table": S}\<close>, where \<open>u\<close> is
  the schema URL given to the constructor; in particular the \<open>table\<close> item of the
  document equals \<open>S\<close> and its \<open>header\<close> item equals
  \<open>{"version": "0.2", "partial": false}\<close>.
\<close>

theorem to_dict_list:
  assumes "heap s table = PList S"
  shows "\<exists>doc s'. to_dict env (init parent u) table s = (Inr doc, init parent u, s')
           \<and> heap s' doc =
               PDict [(PStr ''$schema'', PStr u),
                      (PStr ''header'',
                         PDict [(PStr ''version'', PStr ''0.2''), (PStr ''partial'', PBool False)]),
                      (PStr ''table'', PList S)]
           \<and> getitem (heap s' doc) (PStr ''table'') = Some (PList S)
           \<and> getitem (heap s' doc) (PStr ''header'') =
               Some (PDict [(PStr ''version'', PStr ''0.2''), (PStr ''partial'', PBool False)])"
  using assms by (simp add: to_dict_def new_object_def init_def)

theorem to_dict_list_witness:
  "\<exists>doc s'. to_dict example_env (init \<lparr>awg_index = 3, awg_parent = 7\<rparr> schema_url) 0
                (example_state [PList [PDict [(PStr ''index'', PInt 0)]]] []) =
              (Inr doc, init \<lparr>awg_index = 3, awg_parent = 7\<rparr> schema_url, s')
     \<and> heap s' doc =
         PDict [(PStr ''$schema'', PStr schema_url),
                (PStr ''header'',
                   PDict [(PStr ''version'', PStr ''0.2''), (PStr ''partial'', PBool False)]),
                (PStr ''table'', PList [PDict [(PStr ''index'', PInt 0)]])]
     \<and> getitem (heap s' doc) (PStr ''table'') = Some (PList [PDict [(PStr ''index'', PInt 0)]])
     \<and> getitem (heap s' doc) (PStr ''header'') =
         Some (PDict [(PStr ''version'', PStr ''0.2''), (PStr ''partial'', PBool False)])"
proof -
  have h: "heap (example_state [PList [PDict [(PStr ''index'', PInt 0)]]] []) 0 =
             PList [PDict [(PStr ''index'', PInt 0)]]"
    by (simp add: example_state_def)
  from to_dict_list [OF h] show ?thesis .
qed

text \<open>
  C4. For every dict \<open>D\<close> given as input, normalisation returns the very same object
  (the address it was given) and changes nothing: the store, and with it \<open>D\<close>, is as
  it was.
\<close>

theorem to_dict_dict:
  assumes "heap s table = PDict items"
  shows "to_dict env self table s = (Inr table, self, s)"
  using assms by (simp add: to_dict_def)

theorem to_dict_dict_witness:
  "to_dict example_env (example_loader schema_url) 0
     (example_state [PDict [(PStr ''table'', PList [])]] []) =
   (Inr 0, example_loader schema_url, example_state [PDict [(PStr ''table'', PList [])]] [])"
proof -
  have h: "heap (example_state [PDict [(PStr ''table'', PList [])]] []) 0 =
             PDict [(PStr ''table'', PList [])]"
    by (simp add: example_state_def)
  from to_dict_dict [OF h] show ?thesis .
qed



text \<open>
  C6. For every input that is neither a string, nor a list, nor a dict (the integer 42,
  say), normalisation fails with the toolkit's error, a format error in the taxonomy
  of the specification, whose message says that the command table should be a string,
  a list of entries without a header, or a dictionary.
\<close>

theorem to_dict_other:
  assumes "\<not> isinstance_str (heap s table)"
    and "\<not> isinstance_list (heap s table)"
    and "\<not> isinstance_dict (heap s table)"
  shows "to_dict env self table s = (Inl (ToolkitError unsupported_type_message), self, s)
       \<and> taxonomy (ToolkitError unsupported_type_message) = Some Format_Error"
  using assms by (cases "heap s table") (simp_all add: to_dict_def logger_error_def)

theorem to_dict_other_witness:
  "to_dict example_env (example_loader schema_url) 0 (example_state [PInt 42] []) =
     (Inl (ToolkitError unsupported_type_message), example_loader schema_url,
      example_state [PInt 42] [])"
proof -
  have h: "heap (example_state [PInt 42] []) 0 = PInt 42"
    by (simp add: example_state_def)
  have "\<not> isinstance_str (heap (example_state [PInt 42] []) 0)"
    and "\<not> isinstance_list (heap (example_state [PInt 42] []) 0)"
    and "\<not> isinstance_dict (heap (example_state [PInt 42] []) 0)"
    by (simp_all add: h)
  from to_dict_other [OF this] show ?thesis by simp
qed

text \<open>
  C9. Normalisation of a string never adds a header or a \<open>$schema\<close> item: when the string
  parses to a list, the result is that list and not a document around it, whereas the
  same list given as a Python list is wrapped; the two results differ.
\<close>

theorem to_dict_str_list_not_wrapped:
  assumes "heap s table = PStr text"
    and "json_loads env text = Inr (PList entries)"
    and "heap s table2 = PList entries"
  shows "(\<exists>doc s'. to_dict env self table s = (Inr doc, self, s') \<and> heap s' doc = PList entries)
       \<and> (\<exists>doc s'. to_dict env self table2 s = (Inr doc, self, s')
             \<and> heap s' doc =
                 PDict [(PStr ''$schema'', PStr (ct_schema_url self)),
                        (PStr ''header'',
                           PDict [(PStr ''version'', PStr ''0.2''), (PStr ''partial'', PBool False)]),
                        (PStr ''table'', PList entries)]
             \<and> heap s' doc \<noteq> PList entries)"
  using assms by (simp add: to_dict_def new_object_def)

theorem to_dict_str_list_not_wrapped_witness:
  "(\<exists>doc s'. to_dict example_env (example_loader schema_url) 0
        (example_state [PStr ''[]'', PList []] []) = (Inr doc, example_loader schema_url, s')
      \<and> heap s' doc = PList [])
   \<and> (\<exists>doc s'. to_dict example_env (example_loader schema_url) 1
        (example_state [PStr ''[]'', PList []] []) = (Inr doc, example_loader schema_url, s')
      \<and> heap s' doc =
          PDict [(PStr ''$schema'', PStr (ct_schema_url (example_loader schema_url))),
                 (PStr ''header'',
                    PDict [(PStr ''version'', PStr ''0.2''), (PStr ''partial'', PBool False)]),
                 (PStr ''table'', PList [])]
      \<and> heap s' doc \<noteq> PList [])"
proof -
  let ?s = "example_state [PStr ''[]'', PList []] []"
  have h1: "heap ?s 0 = PStr ''[]''" by (simp add: example_state_def)
  have h2: "json_loads example_env ''[]'' = Inr (PList [])" by (simp add: example_defs)
  have h3: "heap ?s 1 = PList []" by (simp add: example_state_def)
  from to_dict_str_list_not_wrapped [OF h1 h2 h3, of "example_loader schema_url"]
  show ?thesis .
qed

subsection \<open>Validation and upload\<close>

text \<open>
  C1. For every input table and every schema for which the validation of the normalised
  document fails, \<open>load\<close> raises the validation error of the validator, with its schema
  path and offending value, and writes nothing to the instrument.
\<close>

theorem load_invalid_document:
  assumes "to_dict env self table s = (Inr doc, self1, s1)"
    and "urlopen env (length (opened s)) (ct_schema_url self) = Inr body"
    and "json_loads env body = Inr schema"
    and "jsonschema_validate env Draft4Validator (heap s1 doc) schema =
           Some (ValidationError path instance)"
  shows "\<exists>s'. load env self table s = (Inl (ValidationError path instance), self, s')
           \<and> written s' = written s
           \<and> taxonomy (ValidationError path instance) = Some Validation_Error"
  using assms(2-4) validate_normalized [OF assms(1)] to_dict_frame [OF assms(1)]
  by (simp add: load_def)

theorem load_invalid_document_witness:
  "fst (load example_env (example_loader schema_url) 0
          (example_state [PStr ''[]''] [schema_url])) =
     Inl (ValidationError [PStr ''type''] (PList []))
   \<and> written (snd (snd (load example_env (example_loader schema_url) 0
          (example_state [PStr ''[]''] [schema_url])))) = []"
proof -
  let ?s = "example_state [PStr ''[]''] [schema_url]"
  obtain self1 s1
    where h1: "to_dict example_env (example_loader schema_url) 0 ?s = (Inr 1, self1, s1)"
      and hs: "heap s1 1 = PList []"
    by (simp add: to_dict_def new_object_def example_defs)
  have h2: "urlopen example_env (length (opened ?s)) (ct_schema_url (example_loader schema_url)) =
              Inr object_schema_text"
    by (simp add: example_defs)
  have h3: "json_loads example_env object_schema_text =
              Inr (PDict [(PStr ''type'', PStr ''object'')])"
    by (simp add: example_defs)
  have h4: "jsonschema_validate example_env Draft4Validator (heap s1 1)
              (PDict [(PStr ''type'', PStr ''object'')]) =
              Some (ValidationError [PStr ''type''] (PList []))"
    using hs by (simp add: example_defs)
  from load_invalid_document [OF h1 h2 h3 h4]
  obtain s' where "load example_env (example_loader schema_url) 0 ?s =
      (Inl (ValidationError [PStr ''type''] (PList [])), example_loader schema_url, s')"
    and "written s' = written ?s"
    by blast
  then show ?thesis by (simp add: example_state_def)
qed

text \<open>
  C2, as amended. For every input table whose normalised document conforms to the
  fetched schema and is serialised by \<open>json.dumps\<close>, \<open>load\<close> performs exactly one write to
  the instrument, whose payload is that JSON serialisation of the normalised document
  and whose node is \<open>awgs/{index}/commandtable/data\<close> for the index of the owning
  generator, written as its canonical decimal numeral, and \<open>load\<close> returns no value.
  (As stated, for every conforming document, the claim fails: a document that conforms
  but holds an object that \<open>json.dumps\<close> does not serialise makes \<open>load\<close> raise before
  the write.)
\<close>

theorem load_conformant_document:
  assumes "to_dict env self table s = (Inr doc, self1, s1)"
    and "urlopen env (length (opened s)) (ct_schema_url self) = Inr body"
    and "json_loads env body = Inr schema"
    and "jsonschema_validate env Draft4Validator (heap s1 doc) schema = None"
    and "json_dumps env (heap s1 doc) = Inr payload"
  shows "(\<exists>s'. load env self table s = (Inr (), self, s')
           \<and> written s' =
               written s @
                 [(ct_device self, ''awgs/'' @ str_int (ct_index self) @ ''/commandtable/data'',
                   payload)])
       \<and> int_of_str (str_int (ct_index self)) = ct_index self
       \<and> canonical_int (str_int (ct_index self))"
  using assms(2-5) validate_normalized [OF assms(1)] to_dict_frame [OF assms(1)]
  by (simp add: load_def set_vector_def str_int_value str_int_canonical)

theorem load_conformant_document_witness:
  "fst (load example_env (example_loader schema_url) 0 (example_state [PList []] [])) = Inr ()
   \<and> written (snd (snd (load example_env (example_loader schema_url) 0
          (example_state [PList []] [])))) =
       [(7, ''awgs/3/commandtable/data'', empty_table_text)]
   \<and> int_of_str ''3'' = 3
   \<and> fst (load example_env (init \<lparr>awg_index = 305, awg_parent = 7\<rparr> schema_url) 0
          (example_state [PDict []] [])) = Inr ()
   \<and> written (snd (snd (load example_env (init \<lparr>awg_index = 305, awg_parent = 7\<rparr> schema_url) 0
          (example_state [PDict []] [])))) =
       [(7, ''awgs/305/commandtable/data'', ''{}'')]
   \<and> int_of_str ''305'' = 305"
proof -
  let ?s = "example_state [PList []] []"
  obtain self1 s1
    where h1: "to_dict example_env (example_loader schema_url) 0 ?s = (Inr 1, self1, s1)"
      and hs: "heap s1 1 = empty_table_document"
    by (simp add: to_dict_def new_object_def example_defs)
  have h2: "urlopen example_env (length (opened ?s)) (ct_schema_url (example_loader schema_url)) =
              Inr ''{}''"
    by (simp add: example_defs)
  have h3: "json_loads example_env ''{}'' = Inr (PDict [])"
    by (simp add: example_defs)
  have h4: "jsonschema_validate example_env Draft4Validator (heap s1 1) (PDict []) = None"
    by (simp add: example_defs)
  have h5: "json_dumps example_env (heap s1 1) = Inr empty_table_text"
    using hs by (simp add: example_env_def example_json_dumps_def empty_table_document_def)
  have i3: "str_int 3 = ''3''"
    by (simp add: str_int_def str_nat.simps)
  from load_conformant_document [OF h1 h2 h3 h4 h5]
  obtain s' where "load example_env (example_loader schema_url) 0 ?s =
      (Inr (), example_loader schema_url, s')"
    and "written s' = written ?s @
           [(ct_device (example_loader schema_url),
             ''awgs/'' @ str_int (ct_index (example_loader schema_url)) @ ''/commandtable/data'',
             empty_table_text)]"
    and "int_of_str (str_int (ct_index (example_loader schema_url))) =
           ct_index (example_loader schema_url)"
    by blast
  then have first: "fst (load example_env (example_loader schema_url) 0 ?s) = Inr ()
      \<and> written (snd (snd (load example_env (example_loader schema_url) 0 ?s))) =
          [(7, ''awgs/3/commandtable/data'', empty_table_text)]
      \<and> int_of_str ''3'' = 3"
    by (simp add: example_state_def example_loader_def init_def i3)
  let ?t = "example_state [PDict []] []"
  let ?l = "init \<lparr>awg_index = 305, awg_parent = 7\<rparr> schema_url"
  have g1: "to_dict example_env ?l 0 ?t = (Inr 0, ?l, ?t)"
    by (simp add: to_dict_def example_state_def)
  have g2: "urlopen example_env (length (opened ?t)) (ct_schema_url ?l) = Inr ''{}''"
    by (simp add: example_defs)
  have g4: "jsonschema_validate example_env Draft4Validator (heap ?t 0) (PDict []) = None"
    by (simp add: example_defs)
  have g5: "json_dumps example_env (heap ?t 0) = Inr ''{}''"
    by (simp add: example_defs)
  have i305: "str_int 305 = ''305''"
    by (simp add: str_int_def str_nat.simps)
  from load_conformant_document [OF g1 g2 h3 g4 g5]
  obtain t' where "load example_env ?l 0 ?t = (Inr (), ?l, t')"
    and "written t' = written ?t @
           [(ct_device ?l, ''awgs/'' @ str_int (ct_index ?l) @ ''/commandtable/data'', ''{}'')]"
    and "int_of_str (str_int (ct_index ?l)) = ct_index ?l"
    by blast
  then have second: "fst (load example_env ?l 0 ?t) = Inr ()
      \<and> written (snd (snd (load example_env ?l 0 ?t))) =
          [(7, ''awgs/305/commandtable/data'', ''{}'')]
      \<and> int_of_str ''305'' = 305"
    by (simp add: example_state_def init_def i305)
  from first second show ?thesis by simp
qed

theorem load_unserialisable_counterexample:
  "jsonschema_validate example_env Draft4Validator
     (PDict [(PStr ''a'', PObject ''set'')]) (PDict []) = None
   \<and> json_dumps example_env (PDict [(PStr ''a'', PObject ''set'')]) = Inl TypeError
   \<and> fst (load example_env (example_loader schema_url) 0
          (example_state [PDict [(PStr ''a'', PObject ''set'')]] [])) = Inl TypeError
   \<and> written (snd (snd (load example_env (example_loader schema_url) 0
          (example_state [PDict [(PStr ''a'', PObject ''set'')]] [])))) = []"
  by (simp add: load_def validate_def to_dict_def example_defs)

text \<open>
  C7, as amended. Every call of \<open>load\<close> (and of \<open>_validate\<close>) whose input normalises makes
  exactly one request for the schema, to the URL given to the constructor. The body of
  that very request is parsed as JSON when the request succeeds, and the normalised
  document is validated against the parsed schema with the Draft-4 validator when the
  parse succeeds; no schema is kept from an earlier call. (As stated, for every call,
  the claim fails: a call whose input does not normalise requests nothing.)
\<close>

theorem load_fetches_schema:
  assumes "to_dict env self table s = (Inr doc, self1, s1)"
  shows "validate env self table s =
           ((case urlopen env (length (opened s)) (ct_schema_url self) of
               Inl e \<Rightarrow> Inl e
             | Inr body \<Rightarrow>
                 (case json_loads env body of
                    Inl e \<Rightarrow> Inl e
                  | Inr schema \<Rightarrow>
                      (case jsonschema_validate env Draft4Validator (heap s1 doc) schema of
                         Some e \<Rightarrow> Inl e
                       | None \<Rightarrow> Inr doc))),
            self, s1\<lparr>opened := opened s @ [ct_schema_url self]\<rparr>)
       \<and> opened (snd (snd (load env self table s))) = opened s @ [ct_schema_url self]"
  using validate_normalized [OF assms] to_dict_frame [OF assms]
  by (simp add: load_def Let_def set_vector_def split: sum.splits)

theorem load_fetches_schema_witness:
  "fst (validate example_env (example_loader schema_url) 0
          (example_state [PStr ''[]''] [schema_url])) =
     Inl (ValidationError [PStr ''type''] (PList []))
   \<and> opened (snd (snd (load example_env (example_loader schema_url) 0
          (example_state [PStr ''[]''] [schema_url])))) = [schema_url, schema_url]"
proof -
  let ?s = "example_state [PStr ''[]''] [schema_url]"
  obtain self1 s1
    where h1: "to_dict example_env (example_loader schema_url) 0 ?s = (Inr 1, self1, s1)"
      and hs: "heap s1 1 = PList []"
    by (simp add: to_dict_def new_object_def example_defs)
  from load_fetches_schema [OF h1] hs show ?thesis
    by (simp add: example_defs)
qed

theorem load_without_fetch_counterexample:
  "fst (load example_env (example_loader schema_url) 0 (example_state [PInt 42] [])) =
     Inl (ToolkitError unsupported_type_message)
   \<and> opened (example_state [PInt 42] []) = []
   \<and> opened (snd (snd (load example_env (example_loader schema_url) 0
          (example_state [PInt 42] [])))) = []"
  by (simp add: load_def validate_def to_dict_def logger_error_def example_state_def)

text \<open>
  C8, as amended. For every input table: if the schema cannot be fetched (the URL is
  unreachable or answers without success), \<open>load\<close> raises and writes nothing to the
  instrument, and what it raises is that network error whenever the table normalises;
  if the body fetched is not JSON, \<open>load\<close> raises and writes nothing, and what it
  raises is a format error: that of the schema whenever the table normalises, that of
  the normalisation otherwise (a table string that \<open>json.loads\<close> rejects being rejected
  with \<open>JSONDecodeError\<close>). (As stated the claim fails in one respect: with an unreachable
  URL, a table that does not normalise makes \<open>load\<close> raise the error of the
  normalisation and not a network error.)
\<close>

theorem load_schema_unavailable:
  "(urlopen env (length (opened s)) (ct_schema_url self) = Inl e
      \<and> taxonomy e = Some Network_Error \<longrightarrow>
      (\<exists>e' s'. load env self table s = (Inl e', self, s') \<and> written s' = written s
         \<and> ((\<exists>doc self1 s1. to_dict env self table s = (Inr doc, self1, s1)) \<longrightarrow> e' = e)))
   \<and> (urlopen env (length (opened s)) (ct_schema_url self) = Inr body
      \<and> json_loads env body = Inl JSONDecodeError \<longrightarrow>
      (\<exists>e' s'. load env self table s = (Inl e', self, s') \<and> written s' = written s
         \<and> ((\<exists>doc self1 s1. to_dict env self table s = (Inr doc, self1, s1)) \<longrightarrow>
                e' = JSONDecodeError)
         \<and> ((\<forall>text x. heap s table = PStr text \<and> json_loads env text = Inl x \<longrightarrow>
                 x = JSONDecodeError) \<longrightarrow>
              taxonomy e' = Some Format_Error)))"
proof -
  obtain r a0 s0 where t: "to_dict env self table s = (r, a0, s0)"
    by (cases "to_dict env self table s") auto
  show ?thesis
  proof (cases r)
    case (Inl x)
    with t have tx: "to_dict env self table s = (Inl x, a0, s0)" by simp
    have l: "load env self table s = (Inl x, self, s)"
      by (rule load_not_normalized [OF tx])
    from to_dict_error_kind [OF tx]
    have k: "(\<forall>text y. heap s table = PStr text \<and> json_loads env text = Inl y \<longrightarrow>
                 y = JSONDecodeError) \<longrightarrow> taxonomy x = Some Format_Error"
      by auto
    from l k tx show ?thesis by simp
  next
    case (Inr doc)
    with t have td: "to_dict env self table s = (Inr doc, a0, s0)" by simp
    from validate_normalized [OF td] to_dict_frame [OF td] td show ?thesis
      by (auto simp: load_def)
  qed
qed

theorem load_schema_unavailable_witness:
  "fst (load example_env (example_loader unreachable_url) 0
          (example_state [PDict []] [])) = Inl URLError
   \<and> written (snd (snd (load example_env (example_loader unreachable_url) 0
          (example_state [PDict []] [])))) = []
   \<and> fst (load example_env (example_loader missing_url) 0
          (example_state [PDict []] [])) = Inl (HTTPError 404)
   \<and> written (snd (snd (load example_env (example_loader missing_url) 0
          (example_state [PDict []] [])))) = []
   \<and> fst (load example_env (example_loader broken_url) 0
          (example_state [PDict []] [])) = Inl JSONDecodeError
   \<and> written (snd (snd (load example_env (example_loader broken_url) 0
          (example_state [PDict []] [])))) = []
   \<and> (\<exists>e'. fst (load example_env (example_loader broken_url) 0
          (example_state [PInt 42] [])) = Inl e' \<and> taxonomy e' = Some Format_Error)
   \<and> written (snd (snd (load example_env (example_loader broken_url) 0
          (example_state [PInt 42] [])))) = []
   \<and> (\<exists>e'. fst (load example_env (example_loader broken_url) 0
          (example_state [PStr ''[''] [])) = Inl e' \<and> taxonomy e' = Some Format_Error)
   \<and> written (snd (snd (load example_env (example_loader broken_url) 0
          (example_state [PStr ''[''] [])))) = []"
proof -
  let ?s = "example_state [PDict []] []"
  let ?u = "example_state [PInt 42] []"
  let ?v = "example_state [PStr ''[''] []"
  let ?a = "example_loader unreachable_url"
  let ?m = "example_loader missing_url"
  let ?b = "example_loader broken_url"
  have ha: "\<exists>doc self1 s1. to_dict example_env ?a 0 ?s = (Inr doc, self1, s1)"
    by (simp add: to_dict_def example_state_def)
  have hm: "\<exists>doc self1 s1. to_dict example_env ?m 0 ?s = (Inr doc, self1, s1)"
    by (simp add: to_dict_def example_state_def)
  have hb: "\<exists>doc self1 s1. to_dict example_env ?b 0 ?s = (Inr doc, self1, s1)"
    by (simp add: to_dict_def example_state_def)
  have ua: "urlopen example_env (length (opened ?s)) (ct_schema_url ?a) = Inl URLError
              \<and> taxonomy URLError = Some Network_Error"
    by (simp add: example_defs)
  have um: "urlopen example_env (length (opened ?s)) (ct_schema_url ?m) = Inl (HTTPError 404)
              \<and> taxonomy (HTTPError 404) = Some Network_Error"
    by (simp add: example_defs)
  have ub: "urlopen example_env (length (opened ?s)) (ct_schema_url ?b) = Inr ''{''
              \<and> json_loads example_env ''{'' = Inl JSONDecodeError"
    by (simp add: example_defs)
  have uu: "urlopen example_env (length (opened ?u)) (ct_schema_url ?b) = Inr ''{''
              \<and> json_loads example_env ''{'' = Inl JSONDecodeError"
    by (simp add: example_defs)
  have only: "\<forall>text x. heap ?u 0 = PStr text \<and> json_loads example_env text = Inl x \<longrightarrow>
                x = JSONDecodeError"
    by (simp add: example_state_def)
  have uv: "urlopen example_env (length (opened ?v)) (ct_schema_url ?b) = Inr ''{''
              \<and> json_loads example_env ''{'' = Inl JSONDecodeError"
    by (simp add: example_defs)
  have only': "\<forall>text x. heap ?v 0 = PStr text \<and> json_loads example_env text = Inl x \<longrightarrow>
                 x = JSONDecodeError"
    by (simp add: example_defs)
  from load_schema_unavailable
      [where env = example_env and s = "?s" and self = "?a" and e = "URLError"
         and body = "''{''" and table = 0] ua ha
  obtain sa where "load example_env ?a 0 ?s = (Inl URLError, ?a, sa)" "written sa = written ?s"
    by auto
  moreover from load_schema_unavailable
      [where env = example_env and s = "?s" and self = "?m" and e = "HTTPError 404"
         and body = "''{''" and table = 0] um hm
  obtain sm where "load example_env ?m 0 ?s = (Inl (HTTPError 404), ?m, sm)"
    "written sm = written ?s"
    by auto
  moreover from load_schema_unavailable
      [where env = example_env and s = "?s" and self = "?b" and e = "URLError"
         and body = "''{''" and table = 0] ub hb
  obtain sb where "load example_env ?b 0 ?s = (Inl JSONDecodeError, ?b, sb)"
    "written sb = written ?s"
    by auto
  moreover from load_schema_unavailable
      [where env = example_env and s = "?u" and self = "?b" and e = "URLError"
         and body = "''{''" and table = 0] uu only
  obtain e' su where "load example_env ?b 0 ?u = (Inl e', ?b, su)" "written su = written ?u"
    "taxonomy e' = Some Format_Error"
    by auto
  moreover from load_schema_unavailable
      [where env = example_env and s = "?v" and self = "?b" and e = "URLError"
         and body = "''{''" and table = 0] uv only'
  obtain e'' sv where "load example_env ?b 0 ?v = (Inl e'', ?b, sv)" "written sv = written ?v"
    "taxonomy e'' = Some Format_Error"
    by auto
  ultimately show ?thesis
    by (simp add: example_state_def)
qed

theorem load_unreachable_counterexample:
  "urlopen example_env 0 (ct_schema_url (example_loader unreachable_url)) = Inl URLError
   \<and> fst (load example_env (example_loader unreachable_url) 0
          (example_state [PStr ''{''] [])) = Inl JSONDecodeError
   \<and> taxonomy JSONDecodeError = Some Format_Error
   \<and> taxonomy JSONDecodeError \<noteq> Some Network_Error"
  by (simp add: load_def validate_def to_dict_def example_defs)

text \<open>
  C10. No method changes the loader: for every input, \<open>load\<close>, \<open>_validate\<close> and \<open>_to_dict\<close>
  hand back the loader object with the fields it had (parent, index, device and schema
  URL), whether they return or raise.
\<close>

theorem loader_fields_unchanged:
  "fst (snd (to_dict env self table s)) = self
   \<and> fst (snd (validate env self table s)) = self
   \<and> fst (snd (load env self table s)) = self"
proof -
  obtain r1 a1 s1 where t: "to_dict env self table s = (r1, a1, s1)"
    by (cases "to_dict env self table s") auto
  obtain r2 a2 s2 where v: "validate env self table s = (r2, a2, s2)"
    by (cases "validate env self table s") auto
  have a2: "a2 = self" using validate_frame [OF v] by simp
  have "fst (snd (load env self table s)) = self"
    using v a2 by (simp add: load_def Let_def split: sum.splits)
  then show ?thesis using to_dict_frame [OF t] t v a2 by simp
qed

theorem loader_fields_unchanged_witness:
  "fst (snd (load example_env (example_loader schema_url) 0 (example_state [PInt 42] []))) =
     example_loader schema_url
   \<and> fst (snd (load example_env (example_loader schema_url) 0 (example_state [PList []] []))) =
     example_loader schema_url"
  using loader_fields_unchanged [of example_env "example_loader schema_url" 0 "example_state [PInt 42] []"]
    loader_fields_unchanged [of example_env "example_loader schema_url" 0 "example_state [PList []] []"]
  by simp

end
